theory Spec2Isabelle
  imports Complex_Main
begin

section \<open>Streak records and the task screen (app/task/[id].tsx)\<close>

subsection \<open>Data model\<close>

text \<open>
  The row type of table \<open>task_streaks\<close>, as declared by \<open>TaskStreak\<close> in
  types/database.ts and by the schema migration. The column \<open>id\<close> is called
  \<open>streak_id\<close> here, since \<open>id\<close> is the identity function of HOL. The integer
  columns are Postgres \<open>integer\<close>s read into JavaScript numbers; adding 1 to such a
  value is exact, so they are integers here (without the bound of the column type).
  Dates and timestamps are the strings the client receives; a \<open>null\<close> date is
  \<open>None\<close>.
\<close>

record TaskStreak =
  streak_id :: string
  user_id :: string
  current_streak :: int
  longest_streak :: int
  last_completed_date :: "string option"
  total_tasks_completed :: int
  updated_at :: string

datatype status = pending | in_progress | completed

text \<open>
  Of a \<open>Task\<close> row the screen's toggle reads and writes \<open>id\<close>, \<open>status\<close> and
  \<open>completed_at\<close>; the title stands for the columns it carries along unchanged.
\<close>

record Task =
  task_id :: string
  title :: string
  status :: status
  completed_at :: "string option"

subsection \<open>What the outside world supplies to one call\<close>

text \<open>
  \<open>user\<close> is \<open>user?.id\<close> of the signed-in user; \<open>toggle_clock\<close> and \<open>clock\<close>
  are what \<open>new Date().toISOString()\<close> returns in \<open>toggleTaskStatus\<close> and then in
  \<open>updateStreak\<close>; \<open>gen_random_uuid\<close> and \<open>db_now\<close> are the
  column defaults and the \<open>updated_at\<close> trigger value of the database, and
  \<open>update_fails\<close> says whether the update of table \<open>tasks\<close> comes back with an
  error. Reads and writes of \<open>task_streaks\<close> are taken to succeed.
\<close>

record world =
  user :: string
  toggle_clock :: string
  clock :: string
  gen_random_uuid :: string
  db_now :: string
  update_fails :: bool

subsection \<open>updateStreak\<close>

text \<open>\<open>new Date().toISOString().split('T')[0]\<close>: the text before the first \<open>T\<close>.\<close>

definition today_of :: "string \<Rightarrow> string" where
  "today_of stamp = takeWhile (\<lambda>c. c \<noteq> CHR ''T'') stamp"

text \<open>
  \<open>maybeSingle()\<close>: the row when the query matches exactly one, \<open>null\<close> when it
  matches none (and also when it matches several, where the client reports an error
  that \<open>updateStreak\<close> does not read).
\<close>

definition maybeSingle :: "'a list \<Rightarrow> 'a option" where
  "maybeSingle rows = (case rows of [r] \<Rightarrow> Some r | _ \<Rightarrow> None)"

text \<open>\<open>from('task_streaks').select('*').eq('user_id', uid).maybeSingle()\<close>\<close>

definition select_streak :: "string \<Rightarrow> TaskStreak list \<Rightarrow> TaskStreak option" where
  "select_streak uid tbl = maybeSingle (filter (\<lambda>r. user_id r = uid) tbl)"

text \<open>
  The four columns that the branch for an existing record computes from
  \<open>existingStreak\<close> and \<open>today\<close> and passes to \<open>update\<close>, written into a row.
\<close>

definition streak_update :: "TaskStreak \<Rightarrow> string \<Rightarrow> TaskStreak \<Rightarrow> TaskStreak" where
  "streak_update existingStreak today row =
     (let newTotal = total_tasks_completed existingStreak + 1;
          newCurrent = current_streak existingStreak;
          newLongest = longest_streak existingStreak;
          (newCurrent, newLongest) =
            (if last_completed_date existingStreak \<noteq> Some today
             then (let newCurrent = newCurrent + 1
                   in (newCurrent, if newCurrent > newLongest then newCurrent else newLongest))
             else (newCurrent, newLongest))
      in row\<lparr>current_streak := newCurrent,
              longest_streak := newLongest,
              total_tasks_completed := newTotal,
              last_completed_date := Some today\<rparr>)"

text \<open>
  The row that \<open>insert\<close> adds for a user without a record: the five columns of the
  call, \<open>id\<close> and \<open>updated_at\<close> from the column defaults.
\<close>

definition streak_insert :: "world \<Rightarrow> string \<Rightarrow> TaskStreak" where
  "streak_insert w today =
     \<lparr>streak_id = gen_random_uuid w,
      user_id = user w,
      current_streak = 1,
      longest_streak = 1,
      last_completed_date = Some today,
      total_tasks_completed = 1,
      updated_at = db_now w\<rparr>"

text \<open>
  \<open>updateStreak\<close> on the table: the update reaches the rows whose \<open>id\<close> is that of
  the record read (\<open>.eq('id', existingStreak.id)\<close>), and the trigger
  \<open>update_task_streaks_updated_at\<close> stamps each row it changes.
\<close>

definition updateStreak :: "world \<Rightarrow> TaskStreak list \<Rightarrow> TaskStreak list" where
  "updateStreak w tbl =
     (let existingStreak = select_streak (user w) tbl;
          today = today_of (clock w)
      in case existingStreak of
           Some e \<Rightarrow>
             map (\<lambda>r. if streak_id r = streak_id e
                       then (streak_update e today r)\<lparr>updated_at := db_now w\<rparr>
                       else r) tbl
         | None \<Rightarrow> tbl @ [streak_insert w today])"

subsection \<open>toggleTaskStatus\<close>

text \<open>
  The state the toggle works on: the component's \<open>task\<close>, the two tables, and the
  alerts shown so far.
\<close>

record screen =
  task :: "Task option"
  tasks :: "Task list"
  task_streaks :: "TaskStreak list"
  alerts :: "(string \<times> string) list"

definition toggleTaskStatus :: "world \<Rightarrow> screen \<Rightarrow> screen" where
  "toggleTaskStatus w s =
     (case task s of
        None \<Rightarrow> s
      | Some t \<Rightarrow>
          (let newStatus = (if status t = completed then pending else completed);
               completedAt = (if newStatus = completed then Some (toggle_clock w) else None)
           in if update_fails w
              then s\<lparr>alerts := alerts s @ [(''Error'', ''Failed to update task status'')]\<rparr>
              else
                (let s1 = s\<lparr>tasks :=
                             map (\<lambda>r. if task_id r = task_id t
                                       then r\<lparr>status := newStatus, completed_at := completedAt\<rparr>
                                       else r) (tasks s)\<rparr>;
                     s2 = s1\<lparr>task := Some (t\<lparr>status := newStatus, completed_at := completedAt\<rparr>)\<rparr>
                 in if newStatus = completed
                    then s2\<lparr>task_streaks := updateStreak w (task_streaks s2)\<rparr>
                    else s2)))"

section \<open>The generative-language client (services/gemini.ts)\<close>

subsection \<open>JavaScript values and exceptions\<close>

text \<open>
  The values that \<open>response.json()\<close> and \<open>JSON.parse\<close> produce, and \<open>undefined\<close>
  for a property that is not there. Numbers are the finite ones, each a rational; of a
  number the code below only asks whether it is zero. A string is the list of its
  characters; the code below only looks for the two braces in it. An object is the
  list of its own properties in order, with distinct keys.
\<close>

datatype js =
    JUndefined
  | JNull
  | JBool bool
  | JNum rat
  | JStr string
  | JArr "js list"
  | JObj "(string \<times> js) list"

datatype exn = NetworkError | SyntaxError | TypeError

definition nullish :: "js \<Rightarrow> bool" where
  "nullish x = (x = JUndefined \<or> x = JNull)"

text \<open>The operand test of \<open>||\<close>.\<close>

fun truthy :: "js \<Rightarrow> bool" where
  "truthy JUndefined = False"
| "truthy JNull = False"
| "truthy (JBool b) = b"
| "truthy (JNum n) = (n \<noteq> 0)"
| "truthy (JStr s) = (s \<noteq> [])"
| "truthy (JArr xs) = True"
| "truthy (JObj kvs) = True"

text \<open>
  Reading property \<open>p\<close> of a value that is neither \<open>undefined\<close> nor \<open>null\<close>, for
  the names this file reads: \<open>candidates\<close>, \<open>content\<close>, \<open>parts\<close>, \<open>text\<close> and
  the index \<open>0\<close>. None of them is inherited from a prototype, so the read is that of
  an own property: a key of an object, the first element of an array, the first
  character of a string.
\<close>

fun get_prop :: "js \<Rightarrow> string \<Rightarrow> js" where
  "get_prop (JObj kvs) p = (case map_of kvs p of Some v \<Rightarrow> v | None \<Rightarrow> JUndefined)"
| "get_prop (JArr xs) p =
     (if p = ''0'' then (case xs of [] \<Rightarrow> JUndefined | x # _ \<Rightarrow> x) else JUndefined)"
| "get_prop (JStr s) p =
     (if p = ''0'' then (case s of [] \<Rightarrow> JUndefined | c # _ \<Rightarrow> JStr [c]) else JUndefined)"
| "get_prop _ p = JUndefined"

text \<open>\<open>x.p\<close> throws a TypeError on \<open>undefined\<close> and \<open>null\<close>; \<open>x?.p\<close> is \<open>undefined\<close> there.\<close>

definition member :: "js \<Rightarrow> string \<Rightarrow> exn + js" where
  "member x p = (if nullish x then Inl TypeError else Inr (get_prop x p))"

definition opt_member :: "js \<Rightarrow> string \<Rightarrow> js" where
  "opt_member x p = (if nullish x then JUndefined else get_prop x p)"

subsection \<open>generateAIRecommendation\<close>

text \<open>
  The network is a parameter: \<open>api prompt\<close> is what \<open>await fetch(...)\<close> followed by
  \<open>await response.json()\<close> gives for the request carrying \<open>prompt\<close>, either the
  decoded body or the exception of a rejected promise.
\<close>

type_synonym api = "string \<Rightarrow> exn + js"

text \<open>\<open>candidates?.[0]?.content?.parts?.[0]?.text\<close>, from the value of \<open>data.candidates\<close>.\<close>

definition candidate_text :: "js \<Rightarrow> js" where
  "candidate_text candidates =
     opt_member (opt_member (opt_member (opt_member (opt_member candidates ''0'')
       ''content'') ''parts'') ''0'') ''text''"

text \<open>The body of the \<open>try\<close> block.\<close>

definition generateAIRecommendation_try :: "api \<Rightarrow> string \<Rightarrow> exn + js" where
  "generateAIRecommendation_try api prompt =
     (case api prompt of
        Inl e \<Rightarrow> Inl e
      | Inr data \<Rightarrow>
          (case member data ''candidates'' of
             Inl e \<Rightarrow> Inl e
           | Inr candidates \<Rightarrow>
               (let text = candidate_text candidates
                in Inr (if truthy text then text else JStr ''No recommendation available''))))"

definition generateAIRecommendation :: "api \<Rightarrow> string \<Rightarrow> exn + js" where
  "generateAIRecommendation api prompt =
     (case generateAIRecommendation_try api prompt of
        Inr v \<Rightarrow> Inr v
      | Inl error \<Rightarrow> Inr (JStr ''Unable to generate recommendation at this time''))"

subsection \<open>parseVoiceCommand\<close>

text \<open>The template literal of the prompt; its lines are joined by line feeds.\<close>

definition voice_prompt :: "string \<Rightarrow> string" where
  "voice_prompt transcript =
     concat (map (\<lambda>l. l @ [CHR 0x0A])
       [''Parse this voice command for task management and return JSON only:'',
        [CHR 0x22] @ transcript @ [CHR 0x22],
        [],
        ''Return format:'',
        ''{'',
        ''  \"action\": \"create|complete|update|unknown\",'',
        ''  \"taskTitle\": \"extracted task title\",'',
        ''  \"priority\": 1-4 (1=critical, 2=high, 3=medium, 4=low),'',
        ''  \"dueDate\": \"YYYY-MM-DD format if mentioned\"''])
     @ ''}''"

text \<open>
  \<open>s.match(/\{[\s\S]*\}/)\<close>: the match starts at the first opening brace, and the
  greedy star runs to the last closing brace after it; without one there is no match,
  neither from a later opening brace. \<open>None\<close> is \<open>null\<close>, \<open>Some m\<close> is \<open>jsonMatch[0]\<close>.
\<close>

definition match_braces :: "string \<Rightarrow> string option" where
  "match_braces s =
     (case dropWhile (\<lambda>c. c \<noteq> CHR ''{'') s of
        [] \<Rightarrow> None
      | b # rest \<Rightarrow>
          (let body = rev (dropWhile (\<lambda>c. c \<noteq> CHR ''}'') (rev rest))
           in if body = [] then None else Some (b # body)))"

text \<open>\<open>response.match(...)\<close> on a value: only a string has the method.\<close>

fun js_match :: "js \<Rightarrow> exn + string option" where
  "js_match (JStr s) = Inr (match_braces s)"
| "js_match _ = Inl TypeError"

text \<open>
  The body of the \<open>try\<close> block; \<open>Inr None\<close> is leaving it without a \<open>return\<close>.
  \<open>JSON.parse\<close> is a parameter: the text's value, or a SyntaxError.
\<close>

type_synonym json_parse = "string \<Rightarrow> exn + js"

definition parseVoiceCommand_try :: "json_parse \<Rightarrow> api \<Rightarrow> string \<Rightarrow> exn + js option" where
  "parseVoiceCommand_try JSON_parse api transcript =
     (let prompt = voice_prompt transcript
      in case generateAIRecommendation api prompt of
           Inl e \<Rightarrow> Inl e
         | Inr response \<Rightarrow>
             (case js_match response of
                Inl e \<Rightarrow> Inl e
              | Inr None \<Rightarrow> Inr None
              | Inr (Some jsonMatch) \<Rightarrow>
                  (case JSON_parse jsonMatch of
                     Inl e \<Rightarrow> Inl e
                   | Inr v \<Rightarrow> Inr (Some v))))"

definition parseVoiceCommand :: "json_parse \<Rightarrow> api \<Rightarrow> string \<Rightarrow> exn + js" where
  "parseVoiceCommand JSON_parse api transcript =
     (case parseVoiceCommand_try JSON_parse api transcript of
        Inr (Some v) \<Rightarrow> Inr v
      | Inr None \<Rightarrow> Inr (JObj [(''action'', JStr ''unknown'')])
      | Inl error \<Rightarrow> Inr (JObj [(''action'', JStr ''unknown'')]))"

section \<open>Concrete inputs\<close>

text \<open>
  The summary of a user's record that the specification writes as
  \<open>{current, longest, total, last}\<close>.
\<close>

definition streak_view :: "string \<Rightarrow> TaskStreak list \<Rightarrow> (int \<times> int \<times> int \<times> string option) option" where
  "streak_view uid tbl =
     map_option (\<lambda>r. (current_streak r, longest_streak r, total_tasks_completed r,
                       last_completed_date r))
       (select_streak uid tbl)"

text \<open>The tables after each of a sequence of calls of \<open>updateStreak\<close>.\<close>

fun completions :: "world list \<Rightarrow> TaskStreak list \<Rightarrow> TaskStreak list list" where
  "completions [] tbl = []"
| "completions (w # ws) tbl = (let tbl' = updateStreak w tbl in tbl' # completions ws tbl')"

definition streak_ok :: "TaskStreak \<Rightarrow> bool" where
  "streak_ok r = (current_streak r \<le> longest_streak r)"

text \<open>User alice acting at the time \<open>stamp\<close>, with every database call succeeding.\<close>

definition alice :: "string \<Rightarrow> world" where
  "alice stamp =
     \<lparr>user = ''alice'', toggle_clock = stamp, clock = stamp,
      gen_random_uuid = ''streak-2'', db_now = stamp, update_fails = False\<rparr>"

definition bob_row :: TaskStreak where
  "bob_row =
     \<lparr>streak_id = ''streak-1'', user_id = ''bob'', current_streak = 4, longest_streak = 6,
      last_completed_date = Some ''2024-03-02'', total_tasks_completed = 20,
      updated_at = ''2024-03-02T07:00:00.000Z''\<rparr>"

definition alice_row :: "string option \<Rightarrow> TaskStreak" where
  "alice_row d =
     \<lparr>streak_id = ''streak-2'', user_id = ''alice'', current_streak = 2, longest_streak = 5,
      last_completed_date = d, total_tasks_completed = 9,
      updated_at = ''2024-02-01T10:00:00.000Z''\<rparr>"

definition report_task :: Task where
  "report_task =
     \<lparr>task_id = ''task-7'', title = ''Write report'', status = pending, completed_at = None\<rparr>"

definition report_screen :: screen where
  "report_screen =
     \<lparr>task = Some report_task, tasks = [report_task],
      task_streaks = [bob_row, alice_row (Some ''2024-03-01'')], alerts = []\<rparr>"

text \<open>An endpoint that answers every request with one candidate whose text is \<open>t\<close>.\<close>

definition reply :: "js \<Rightarrow> api" where
  "reply t prompt =
     Inr (JObj [(''candidates'',
       JArr [JObj [(''content'', JObj [(''parts'', JArr [JObj [(''text'', t)]])])]])])"

fun returns_string :: "exn + js \<Rightarrow> bool" where
  "returns_string (Inr (JStr s)) = True"
| "returns_string _ = False"

text \<open>
  A command outside the declared format, the object that \<open>JSON.parse\<close> makes of it,
  and a parser that agrees with \<open>JSON.parse\<close> on this text and rejects every other
  one; it is applied below to this text and to texts that are not JSON.
\<close>

definition delete_text :: string where
  "delete_text = ''{\"action\":\"delete\",\"priority\":9}''"

definition delete_intent :: js where
  "delete_intent = JObj [(''action'', JStr ''delete''), (''priority'', JNum 9)]"

definition parse_delete :: json_parse where
  "parse_delete s = (if s = delete_text then Inr delete_intent else Inl SyntaxError)"

text \<open>Endpoints for the failures: the request is rejected; the body is \<open>null\<close>.\<close>

definition offline :: api where
  "offline prompt = Inl NetworkError"

definition null_body :: api where
  "null_body prompt = Inr JNull"

definition delete_response :: string where
  "delete_response = ''Here is the command: '' @ delete_text @ '' Anything else?''"

text \<open>
  Two responses with more than one pair of braces. In the first the command carries a
  nested object; the second holds two commands, each JSON on its own. The parser agrees
  with \<open>JSON.parse\<close> on the two commands it accepts and rejects every other text; it
  is applied below to these two and to the whole of the second response, which is not
  JSON.
\<close>

definition create_text :: string where
  "create_text = ''{\"action\":\"create\"}''"

definition create_intent :: js where
  "create_intent = JObj [(''action'', JStr ''create'')]"

definition update_text :: string where
  "update_text = ''{\"action\":\"update\"}''"

definition nested_text :: string where
  "nested_text = ''{\"action\":\"create\",\"tags\":{\"a\":1}}''"

definition nested_intent :: js where
  "nested_intent =
     JObj [(''action'', JStr ''create''), (''tags'', JObj [(''a'', JNum 1)])]"

definition nested_response :: string where
  "nested_response = ''Sure: '' @ nested_text @ '' Done.''"

definition two_response :: string where
  "two_response = create_text @ '' and '' @ update_text"

definition parse_create :: json_parse where
  "parse_create s =
     (if s = create_text then Inr create_intent
      else if s = nested_text then Inr nested_intent
      else Inl SyntaxError)"

section \<open>Basic facts\<close>

lemma maybeSingle_Some: "maybeSingle rows = Some r \<longleftrightarrow> rows = [r]"
  by (cases rows; cases "tl rows") (auto simp: maybeSingle_def)

lemma streak_update_user_id [simp]: "user_id (streak_update e d r) = user_id r"
  by (simp add: streak_update_def Let_def)

lemma streak_update_streak_id [simp]: "streak_id (streak_update e d r) = streak_id r"
  by (simp add: streak_update_def Let_def)

lemma filter_map_update:
  assumes "\<And>r. user_id (f r) = user_id r"
  shows "filter (\<lambda>r. user_id r = uid) (map (\<lambda>r. if streak_id r = i then f r else r) tbl)
         = map (\<lambda>r. if streak_id r = i then f r else r) (filter (\<lambda>r. user_id r = uid) tbl)"
  using assms by (induction tbl) auto

text \<open>
  After \<open>updateStreak\<close> for a user with a record, that user's record is the one read,
  with the four columns of the update and the trigger's stamp.
\<close>

lemma select_after_update:
  assumes "select_streak (user w) tbl = Some R"
  shows "select_streak (user w) (updateStreak w tbl)
         = Some ((streak_update R (today_of (clock w)) R)\<lparr>updated_at := db_now w\<rparr>)"
proof -
  let ?f = "\<lambda>r. (streak_update R (today_of (clock w)) r)\<lparr>updated_at := db_now w\<rparr>"
  have one: "filter (\<lambda>r. user_id r = user w) tbl = [R]"
    using assms by (simp add: select_streak_def maybeSingle_Some)
  have upd: "updateStreak w tbl = map (\<lambda>r. if streak_id r = streak_id R then ?f r else r) tbl"
    using assms by (simp add: updateStreak_def)
  have "filter (\<lambda>r. user_id r = user w) (updateStreak w tbl)
        = map (\<lambda>r. if streak_id r = streak_id R then ?f r else r) [R]"
    unfolding upd using one by (subst filter_map_update) simp_all
  then show ?thesis
    by (simp add: select_streak_def maybeSingle_def)
qed

lemma select_after_insert:
  assumes "filter (\<lambda>r. user_id r = user w) tbl = []"
  shows "select_streak (user w) (updateStreak w tbl)
         = Some (streak_insert w (today_of (clock w)))"
proof -
  have none: "select_streak (user w) tbl = None"
    using assms by (simp add: select_streak_def maybeSingle_def)
  have "filter (\<lambda>r. user_id r = user w) (updateStreak w tbl) = [streak_insert w (today_of (clock w))]"
    using assms none by (simp add: updateStreak_def streak_insert_def)
  then show ?thesis
    by (simp add: select_streak_def maybeSingle_def)
qed

lemma streak_update_new_date:
  assumes "last_completed_date R \<noteq> Some d"
  shows "streak_update R d R =
         R\<lparr>current_streak := current_streak R + 1,
           longest_streak := max (longest_streak R) (current_streak R + 1),
           total_tasks_completed := total_tasks_completed R + 1,
           last_completed_date := Some d\<rparr>"
  using assms by (simp add: streak_update_def Let_def max_def)

lemma streak_update_same_date:
  assumes "last_completed_date R = Some d"
  shows "streak_update R d R = R\<lparr>total_tasks_completed := total_tasks_completed R + 1\<rparr>"
  using assms by (simp add: streak_update_def Let_def)

lemma streak_update_ok:
  assumes "streak_ok e"
  shows "streak_ok (streak_update e d r)"
  using assms by (simp add: streak_update_def streak_ok_def Let_def)

section \<open>Claims about the streak update\<close>

text \<open>
  C1. For every existing streak record \<open>R\<close> of the user and every date other than
  \<open>last_completed_date R\<close> (a \<open>null\<close> previous date and a date any number of days
  back included: the only test is the inequality), the update leaves the user with the
  record whose current streak is that of \<open>R\<close> plus 1, whose longest streak is the
  maximum of the old longest streak and the new current streak, whose total is that of
  \<open>R\<close> plus 1 and whose last completed date is the new date. The current streak is
  never reset. The date is \<open>today_of (clock w)\<close>; \<open>updated_at\<close> is the trigger's stamp.
\<close>

theorem updateStreak_new_date:
  assumes "select_streak (user w) tbl = Some R"
      and "last_completed_date R \<noteq> Some (today_of (clock w))"
  shows "select_streak (user w) (updateStreak w tbl) =
         Some (R\<lparr>current_streak := current_streak R + 1,
                 longest_streak := max (longest_streak R) (current_streak R + 1),
                 total_tasks_completed := total_tasks_completed R + 1,
                 last_completed_date := Some (today_of (clock w)),
                 updated_at := db_now w\<rparr>)"
  using select_after_update [OF assms(1)] streak_update_new_date [OF assms(2)]
  by simp

theorem updateStreak_new_date_witness:
  "select_streak (user (alice ''2024-03-09T21:40:00.000Z'')) [bob_row, alice_row None]
     = Some (alice_row None)
   \<and> last_completed_date (alice_row None)
     \<noteq> Some (today_of (clock (alice ''2024-03-09T21:40:00.000Z'')))
   \<and> select_streak (user (alice ''2024-03-09T21:40:00.000Z''))
       (updateStreak (alice ''2024-03-09T21:40:00.000Z'') [bob_row, alice_row None])
     = Some \<lparr>streak_id = ''streak-2'', user_id = ''alice'', current_streak = 3,
             longest_streak = 5, last_completed_date = Some ''2024-03-09'',
             total_tasks_completed = 10, updated_at = ''2024-03-09T21:40:00.000Z''\<rparr>"
proof -
  let ?w = "alice ''2024-03-09T21:40:00.000Z''"
  have h1: "select_streak (user ?w) [bob_row, alice_row None] = Some (alice_row None)"
    by (simp add: select_streak_def maybeSingle_def alice_def bob_row_def alice_row_def)
  have h2: "last_completed_date (alice_row None) \<noteq> Some (today_of (clock ?w))"
    by (simp add: alice_row_def)
  show ?thesis
    using h1 h2 updateStreak_new_date [OF h1 h2]
    by (simp add: alice_def alice_row_def today_of_def)
qed

text \<open>
  C2. For every record of a user whose longest streak is at least its current streak,
  and for every completion date, the record the user has after \<open>updateStreak\<close> again
  has a longest streak that is at least its current streak; so has the record created
  for a user without one. Hence the property holds of every record of the table after
  the call when it held of every record before.
\<close>

theorem updateStreak_keeps_longest_ge_current:
  "(select_streak (user w) tbl = Some R \<and> current_streak R \<le> longest_streak R
      \<longrightarrow> (\<exists>R'. select_streak (user w) (updateStreak w tbl) = Some R'
                \<and> current_streak R' \<le> longest_streak R'))
   \<and> (filter (\<lambda>r. user_id r = user w) tbl = []
      \<longrightarrow> (\<exists>R'. select_streak (user w) (updateStreak w tbl) = Some R'
                \<and> current_streak R' \<le> longest_streak R'))
   \<and> (list_all streak_ok tbl \<longrightarrow> list_all streak_ok (updateStreak w tbl))"
proof (intro conjI impI)
  assume a: "select_streak (user w) tbl = Some R \<and> current_streak R \<le> longest_streak R"
  then have "streak_ok R"
    by (simp add: streak_ok_def)
  then have "streak_ok (streak_update R (today_of (clock w)) R)"
    by (rule streak_update_ok)
  with a select_after_update [of w tbl R]
  show "\<exists>R'. select_streak (user w) (updateStreak w tbl) = Some R'
             \<and> current_streak R' \<le> longest_streak R'"
    by (simp add: streak_ok_def)
next
  assume "filter (\<lambda>r. user_id r = user w) tbl = []"
  then show "\<exists>R'. select_streak (user w) (updateStreak w tbl) = Some R'
                  \<and> current_streak R' \<le> longest_streak R'"
    by (simp add: select_after_insert streak_insert_def)
next
  assume all_ok: "list_all streak_ok tbl"
  show "list_all streak_ok (updateStreak w tbl)"
  proof (cases "select_streak (user w) tbl")
    case None
    then have "updateStreak w tbl = tbl @ [streak_insert w (today_of (clock w))]"
      by (simp add: updateStreak_def)
    with all_ok show ?thesis
      by (simp add: streak_insert_def streak_ok_def)
  next
    case (Some e)
    then have "filter (\<lambda>r. user_id r = user w) tbl = [e]"
      by (simp add: select_streak_def maybeSingle_Some)
    then have "e \<in> set (filter (\<lambda>r. user_id r = user w) tbl)"
      by simp
    then have "e \<in> set tbl"
      by simp
    with all_ok have e_ok: "streak_ok e"
      by (simp add: list_all_iff)
    have upd: "streak_ok ((streak_update e d r)\<lparr>updated_at := t\<rparr>)" for d r t
      using streak_update_ok [OF e_ok, of d r] by (simp add: streak_ok_def)
    have "updateStreak w tbl =
          map (\<lambda>r. if streak_id r = streak_id e
                    then (streak_update e (today_of (clock w)) r)\<lparr>updated_at := db_now w\<rparr>
                    else r) tbl"
      using Some by (simp add: updateStreak_def)
    with all_ok upd show ?thesis
      by (auto simp: list_all_iff)
  qed
qed

theorem updateStreak_keeps_longest_ge_current_witness:
  "select_streak (user (alice ''2024-03-02T09:00:00.000Z''))
       [bob_row, alice_row (Some ''2024-03-01'')]
     = Some (alice_row (Some ''2024-03-01''))
   \<and> current_streak (alice_row (Some ''2024-03-01''))
     \<le> longest_streak (alice_row (Some ''2024-03-01''))
   \<and> (\<exists>R'. select_streak (user (alice ''2024-03-02T09:00:00.000Z''))
               (updateStreak (alice ''2024-03-02T09:00:00.000Z'')
                  [bob_row, alice_row (Some ''2024-03-01'')]) = Some R'
         \<and> current_streak R' \<le> longest_streak R')
   \<and> filter (\<lambda>r. user_id r = user (alice ''2024-03-02T09:00:00.000Z'')) [bob_row] = []
   \<and> (\<exists>R'. select_streak (user (alice ''2024-03-02T09:00:00.000Z''))
               (updateStreak (alice ''2024-03-02T09:00:00.000Z'') [bob_row]) = Some R'
         \<and> current_streak R' \<le> longest_streak R')
   \<and> list_all streak_ok [bob_row, alice_row (Some ''2024-03-01'')]
   \<and> list_all streak_ok
       (updateStreak (alice ''2024-03-02T09:00:00.000Z'')
          [bob_row, alice_row (Some ''2024-03-01'')])"
proof -
  let ?w = "alice ''2024-03-02T09:00:00.000Z''"
  let ?R = "alice_row (Some ''2024-03-01'')"
  have h1: "select_streak (user ?w) [bob_row, ?R] = Some ?R"
    by (simp add: select_streak_def maybeSingle_def alice_def bob_row_def alice_row_def)
  have h2: "current_streak ?R \<le> longest_streak ?R"
    by (simp add: alice_row_def)
  have h3: "filter (\<lambda>r. user_id r = user ?w) [bob_row] = []"
    by (simp add: alice_def bob_row_def)
  have h4: "list_all streak_ok [bob_row, ?R]"
    by (simp add: streak_ok_def bob_row_def alice_row_def)
  show ?thesis
    using h1 h2 h3 h4
      updateStreak_keeps_longest_ge_current [of ?w "[bob_row, ?R]" ?R]
      updateStreak_keeps_longest_ge_current [of ?w "[bob_row]"]
    by simp
qed

text \<open>
  C3. For every existing record \<open>R\<close> of the user, a completion on the date
  \<open>last_completed_date R\<close> leaves the user with a record that has the identifier, the
  owner, the current streak, the longest streak and the last completed date of \<open>R\<close>,
  and the total of \<open>R\<close> plus 1. (The time stamp \<open>updated_at\<close>, which is not a field of
  the streak record of the specification, is set by the trigger.)
\<close>

theorem updateStreak_same_date:
  assumes "select_streak (user w) tbl = Some R"
      and "last_completed_date R = Some (today_of (clock w))"
  shows "select_streak (user w) (updateStreak w tbl) =
           Some (R\<lparr>total_tasks_completed := total_tasks_completed R + 1,
                   updated_at := db_now w\<rparr>)
         \<and> (\<exists>R'. select_streak (user w) (updateStreak w tbl) = Some R'
               \<and> streak_id R' = streak_id R
               \<and> user_id R' = user_id R
               \<and> current_streak R' = current_streak R
               \<and> longest_streak R' = longest_streak R
               \<and> last_completed_date R' = last_completed_date R
               \<and> total_tasks_completed R' = total_tasks_completed R + 1)"
  using select_after_update [OF assms(1)] streak_update_same_date [OF assms(2)]
  by simp

theorem updateStreak_same_date_witness:
  "select_streak (user (alice ''2024-03-01T23:10:00.000Z''))
       [bob_row, alice_row (Some ''2024-03-01'')]
     = Some (alice_row (Some ''2024-03-01''))
   \<and> last_completed_date (alice_row (Some ''2024-03-01''))
     = Some (today_of (clock (alice ''2024-03-01T23:10:00.000Z'')))
   \<and> select_streak (user (alice ''2024-03-01T23:10:00.000Z''))
       (updateStreak (alice ''2024-03-01T23:10:00.000Z'')
          [bob_row, alice_row (Some ''2024-03-01'')])
     = Some \<lparr>streak_id = ''streak-2'', user_id = ''alice'', current_streak = 2,
             longest_streak = 5, last_completed_date = Some ''2024-03-01'',
             total_tasks_completed = 10, updated_at = ''2024-03-01T23:10:00.000Z''\<rparr>"
proof -
  let ?w = "alice ''2024-03-01T23:10:00.000Z''"
  let ?R = "alice_row (Some ''2024-03-01'')"
  have h1: "select_streak (user ?w) [bob_row, ?R] = Some ?R"
    by (simp add: select_streak_def maybeSingle_def alice_def bob_row_def alice_row_def)
  have h2: "last_completed_date ?R = Some (today_of (clock ?w))"
    by (simp add: alice_row_def alice_def today_of_def)
  show ?thesis
    using h1 h2 updateStreak_same_date [OF h1 h2]
    by (simp add: alice_def alice_row_def)
qed

text \<open>
  C4. For every date, a completion by a user who has no streak record creates a record
  with current streak 1, longest streak 1, total 1 and that date as the last completed
  date. The date is \<open>today_of (clock w)\<close> for any clock reading, the user any user
  without a row in the table.
\<close>

theorem updateStreak_creates:
  assumes "filter (\<lambda>r. user_id r = user w) tbl = []"
  shows "\<exists>R'. select_streak (user w) (updateStreak w tbl) = Some R'
           \<and> updateStreak w tbl = tbl @ [R']
           \<and> user_id R' = user w
           \<and> current_streak R' = 1
           \<and> longest_streak R' = 1
           \<and> total_tasks_completed R' = 1
           \<and> last_completed_date R' = Some (today_of (clock w))"
proof -
  have none: "select_streak (user w) tbl = None"
    using assms by (simp add: select_streak_def maybeSingle_def)
  have "updateStreak w tbl = tbl @ [streak_insert w (today_of (clock w))]"
    using none by (simp add: updateStreak_def)
  with select_after_insert [OF assms] show ?thesis
    by (simp add: streak_insert_def)
qed

theorem updateStreak_creates_witness:
  "filter (\<lambda>r. user_id r = user (alice ''2024-01-01T08:15:00.000Z'')) [bob_row] = []
   \<and> (\<exists>R'. select_streak (user (alice ''2024-01-01T08:15:00.000Z''))
               (updateStreak (alice ''2024-01-01T08:15:00.000Z'') [bob_row]) = Some R'
         \<and> updateStreak (alice ''2024-01-01T08:15:00.000Z'') [bob_row] = [bob_row] @ [R']
         \<and> user_id R' = ''alice''
         \<and> current_streak R' = 1
         \<and> longest_streak R' = 1
         \<and> total_tasks_completed R' = 1
         \<and> last_completed_date R' = Some ''2024-01-01'')"
proof -
  let ?w = "alice ''2024-01-01T08:15:00.000Z''"
  have h: "filter (\<lambda>r. user_id r = user ?w) [bob_row] = []"
    by (simp add: alice_def bob_row_def)
  have u: "user ?w = ''alice''" and d: "today_of (clock ?w) = ''2024-01-01''"
    by (simp_all add: alice_def today_of_def)
  show ?thesis
    using h updateStreak_creates [OF h] unfolding u d by simp
qed

text \<open>
  C5. Starting from a table without a record of the user, completions on 2024-01-01,
  again on 2024-01-01, on 2024-01-02 and on 2024-01-10 leave the user, in this order,
  with the records \<open>{1, 1, 1, 2024-01-01}\<close>, \<open>{1, 1, 2, 2024-01-01}\<close>,
  \<open>{2, 2, 3, 2024-01-02}\<close> and \<open>{3, 3, 4, 2024-01-10}\<close>.
\<close>

theorem updateStreak_scenario:
  "map (streak_view ''alice'')
     (completions
        [alice ''2024-01-01T08:15:00.000Z'',
         alice ''2024-01-01T19:30:00.000Z'',
         alice ''2024-01-02T07:45:00.000Z'',
         alice ''2024-01-10T12:00:00.000Z'']
        [bob_row])
   = [Some (1, 1, 1, Some ''2024-01-01''),
      Some (1, 1, 2, Some ''2024-01-01''),
      Some (2, 2, 3, Some ''2024-01-02''),
      Some (3, 3, 4, Some ''2024-01-10'')]"
  by (simp add: streak_view_def select_streak_def maybeSingle_def updateStreak_def
      streak_update_def streak_insert_def today_of_def alice_def bob_row_def Let_def)

text \<open>
  C9. For every existing record \<open>R\<close> of the user and every completion date, the record
  the user has after \<open>updateStreak\<close> has a longest streak, a current streak and a total
  that are not smaller than those of \<open>R\<close>; the total is larger. (The creation branch
  has no record to compare with: it starts all three at 1.)
\<close>

theorem updateStreak_monotone:
  assumes "select_streak (user w) tbl = Some R"
  shows "\<exists>R'. select_streak (user w) (updateStreak w tbl) = Some R'
           \<and> longest_streak R \<le> longest_streak R'
           \<and> current_streak R \<le> current_streak R'
           \<and> total_tasks_completed R < total_tasks_completed R'"
  using select_after_update [OF assms]
  by (simp add: streak_update_def Let_def)

theorem updateStreak_monotone_witness:
  "select_streak (user (alice ''2024-03-09T21:40:00.000Z''))
       [bob_row, alice_row (Some ''2024-03-01'')]
     = Some (alice_row (Some ''2024-03-01''))
   \<and> (\<exists>R'. select_streak (user (alice ''2024-03-09T21:40:00.000Z''))
               (updateStreak (alice ''2024-03-09T21:40:00.000Z'')
                  [bob_row, alice_row (Some ''2024-03-01'')]) = Some R'
         \<and> 5 \<le> longest_streak R'
         \<and> 2 \<le> current_streak R'
         \<and> 9 < total_tasks_completed R')"
proof -
  let ?w = "alice ''2024-03-09T21:40:00.000Z''"
  let ?R = "alice_row (Some ''2024-03-01'')"
  have h: "select_streak (user ?w) [bob_row, ?R] = Some ?R"
    by (simp add: select_streak_def maybeSingle_def alice_def bob_row_def alice_row_def)
  have f: "longest_streak ?R = 5" "current_streak ?R = 2" "total_tasks_completed ?R = 9"
    by (simp_all add: alice_row_def)
  show ?thesis
    using h updateStreak_monotone [OF h] unfolding f by simp
qed

section \<open>Claims about the toggle\<close>

lemma toggle_task_streaks:
  "task_streaks (toggleTaskStatus w s) =
     (case task s of
        None \<Rightarrow> task_streaks s
      | Some t \<Rightarrow>
          if status t = completed \<or> update_fails w
          then task_streaks s
          else updateStreak w (task_streaks s))"
  by (simp add: toggleTaskStatus_def Let_def split: option.splits)

lemma toggle_task_status:
  assumes "task s = Some t" and "\<not> update_fails w"
  shows "\<exists>t'. task (toggleTaskStatus w s) = Some t'
           \<and> status t' = (if status t = completed then pending else completed)"
  using assms by (simp add: toggleTaskStatus_def Let_def)

lemma select_after_update_total:
  assumes "select_streak (user w) tbl = Some R"
  shows "\<exists>R'. select_streak (user w) (updateStreak w tbl) = Some R'
           \<and> total_tasks_completed R' = total_tasks_completed R + 1"
  using select_after_update [OF assms] by (simp add: streak_update_def Let_def)

text \<open>
  C8. The toggle runs \<open>updateStreak\<close> only when the new status is \<open>completed\<close> (and
  the update of the task came back without an error); in every other case, and so when
  a completed task goes back to \<open>pending\<close>, the table of streak records is what it
  was: nothing is decremented or reset. So completing a task, reopening it and
  completing it again counts it twice in \<open>total_tasks_completed\<close>.
\<close>

theorem toggleTaskStatus_streaks:
  "task_streaks (toggleTaskStatus w s) =
     (case task s of
        None \<Rightarrow> task_streaks s
      | Some t \<Rightarrow>
          if status t = completed \<or> update_fails w
          then task_streaks s
          else updateStreak w (task_streaks s))
   \<and> (task s = Some t \<and> status t = completed
        \<longrightarrow> task_streaks (toggleTaskStatus w s) = task_streaks s)
   \<and> (task s = Some t \<and> status t \<noteq> completed
        \<and> \<not> update_fails w1 \<and> \<not> update_fails w2 \<and> \<not> update_fails w3
        \<and> user w3 = user w1
        \<and> select_streak (user w1) (task_streaks s) = Some R
        \<longrightarrow> (\<exists>R'. select_streak (user w1)
                     (task_streaks
                        (toggleTaskStatus w3 (toggleTaskStatus w2 (toggleTaskStatus w1 s))))
                   = Some R'
                 \<and> total_tasks_completed R' = total_tasks_completed R + 2))"
proof (intro conjI impI)
  show "task_streaks (toggleTaskStatus w s) =
     (case task s of
        None \<Rightarrow> task_streaks s
      | Some t \<Rightarrow>
          if status t = completed \<or> update_fails w
          then task_streaks s
          else updateStreak w (task_streaks s))"
    by (rule toggle_task_streaks)
next
  assume "task s = Some t \<and> status t = completed"
  then show "task_streaks (toggleTaskStatus w s) = task_streaks s"
    by (simp add: toggle_task_streaks)
next
  let ?s1 = "toggleTaskStatus w1 s"
  let ?s2 = "toggleTaskStatus w2 ?s1"
  let ?s3 = "toggleTaskStatus w3 ?s2"
  assume a: "task s = Some t \<and> status t \<noteq> completed
        \<and> \<not> update_fails w1 \<and> \<not> update_fails w2 \<and> \<not> update_fails w3
        \<and> user w3 = user w1
        \<and> select_streak (user w1) (task_streaks s) = Some R"
  have st1: "task_streaks ?s1 = updateStreak w1 (task_streaks s)"
    using a by (simp add: toggle_task_streaks)
  obtain t1 where t1: "task ?s1 = Some t1" "status t1 = completed"
    using toggle_task_status [of s t w1] a by auto
  have st2: "task_streaks ?s2 = task_streaks ?s1"
    using t1 by (simp add: toggle_task_streaks)
  obtain t2 where t2: "task ?s2 = Some t2" "status t2 = pending"
    using toggle_task_status [of ?s1 t1 w2] t1 a by auto
  have st3: "task_streaks ?s3 = updateStreak w3 (updateStreak w1 (task_streaks s))"
    using t2 a st1 st2 by (simp add: toggle_task_streaks)
  obtain R1 where R1: "select_streak (user w1) (updateStreak w1 (task_streaks s)) = Some R1"
      "total_tasks_completed R1 = total_tasks_completed R + 1"
    using select_after_update_total [of w1 "task_streaks s" R] a by auto
  have "select_streak (user w3) (updateStreak w1 (task_streaks s)) = Some R1"
    using R1 a by simp
  then obtain R2 where R2:
      "select_streak (user w3) (updateStreak w3 (updateStreak w1 (task_streaks s))) = Some R2"
      "total_tasks_completed R2 = total_tasks_completed R1 + 1"
    using select_after_update_total [of w3 "updateStreak w1 (task_streaks s)" R1] by auto
  show "\<exists>R'. select_streak (user w1) (task_streaks ?s3) = Some R'
             \<and> total_tasks_completed R' = total_tasks_completed R + 2"
    using R1 R2 a st3 by simp
qed

theorem toggleTaskStatus_streaks_witness:
  "task report_screen = Some report_task
   \<and> status report_task \<noteq> completed
   \<and> \<not> update_fails (alice ''2024-03-02T09:00:00.000Z'')
   \<and> \<not> update_fails (alice ''2024-03-02T09:05:00.000Z'')
   \<and> \<not> update_fails (alice ''2024-03-02T09:10:00.000Z'')
   \<and> select_streak ''alice'' (task_streaks report_screen)
     = Some (alice_row (Some ''2024-03-01''))
   \<and> task_streaks (toggleTaskStatus (alice ''2024-03-02T09:00:00.000Z'') report_screen)
     = updateStreak (alice ''2024-03-02T09:00:00.000Z'') (task_streaks report_screen)
   \<and> task_streaks
       (toggleTaskStatus (alice ''2024-03-02T09:05:00.000Z'')
          (toggleTaskStatus (alice ''2024-03-02T09:00:00.000Z'') report_screen))
     = task_streaks (toggleTaskStatus (alice ''2024-03-02T09:00:00.000Z'') report_screen)
   \<and> (\<exists>R'. select_streak ''alice''
               (task_streaks
                  (toggleTaskStatus (alice ''2024-03-02T09:10:00.000Z'')
                     (toggleTaskStatus (alice ''2024-03-02T09:05:00.000Z'')
                        (toggleTaskStatus (alice ''2024-03-02T09:00:00.000Z'')
                           report_screen))))
             = Some R'
         \<and> total_tasks_completed R' = 11)"
proof -
  let ?w1 = "alice ''2024-03-02T09:00:00.000Z''"
  let ?w2 = "alice ''2024-03-02T09:05:00.000Z''"
  let ?w3 = "alice ''2024-03-02T09:10:00.000Z''"
  let ?R = "alice_row (Some ''2024-03-01'')"
  let ?s1 = "toggleTaskStatus ?w1 report_screen"
  let ?t1 = "report_task\<lparr>status := completed,
                          completed_at := Some ''2024-03-02T09:00:00.000Z''\<rparr>"
  have t0: "task report_screen = Some report_task" "status report_task \<noteq> completed"
    by (simp_all add: report_screen_def report_task_def)
  have ok: "\<not> update_fails ?w1" "\<not> update_fails ?w2" "\<not> update_fails ?w3"
    by (simp_all add: alice_def)
  have u: "user ?w1 = ''alice''" "user ?w3 = ''alice''"
    by (simp_all add: alice_def)
  have r0: "select_streak ''alice'' (task_streaks report_screen) = Some ?R"
    by (simp add: select_streak_def maybeSingle_def report_screen_def bob_row_def
        alice_row_def)
  have t1: "task ?s1 = Some ?t1" "status ?t1 = completed"
    by (simp_all add: toggleTaskStatus_def report_screen_def report_task_def alice_def
        Let_def)
  have c1: "task_streaks ?s1 = updateStreak ?w1 (task_streaks report_screen)"
    using toggleTaskStatus_streaks [of ?w1 report_screen] t0 ok by simp
  have c2: "task_streaks (toggleTaskStatus ?w2 ?s1) = task_streaks ?s1"
    using toggleTaskStatus_streaks [of ?w2 ?s1 ?t1] t1 by simp
  have c3: "\<exists>R'. select_streak ''alice''
                  (task_streaks (toggleTaskStatus ?w3 (toggleTaskStatus ?w2 ?s1))) = Some R'
              \<and> total_tasks_completed R' = total_tasks_completed ?R + 2"
    using toggleTaskStatus_streaks [of ?w1 report_screen report_task ?w1 ?w2 ?w3 ?R]
      t0 ok u r0 by simp
  have "total_tasks_completed ?R + 2 = 11"
    by (simp add: alice_row_def)
  with t0 ok r0 c1 c2 c3 show ?thesis
    by simp
qed

section \<open>Claims about the generative-language client\<close>

lemma generateAIRecommendation_cases:
  "generateAIRecommendation api prompt =
     Inr (case api prompt of
            Inl e \<Rightarrow> JStr ''Unable to generate recommendation at this time''
          | Inr data \<Rightarrow>
              if nullish data then JStr ''Unable to generate recommendation at this time''
              else if truthy (candidate_text (get_prop data ''candidates''))
                   then candidate_text (get_prop data ''candidates'')
                   else JStr ''No recommendation available'')"
  by (simp add: generateAIRecommendation_def generateAIRecommendation_try_def member_def
      Let_def split: sum.splits)

lemma match_braces_shape:
  assumes "match_braces s = Some m"
  shows "\<exists>pre body post. s = pre @ m @ post \<and> m = CHR ''{'' # body @ [CHR ''}'']
           \<and> CHR ''{'' \<notin> set pre \<and> CHR ''}'' \<notin> set post"
proof -
  let ?pre = "takeWhile (\<lambda>c. c \<noteq> CHR ''{'') s"
  obtain b rest where d: "dropWhile (\<lambda>c. c \<noteq> CHR ''{'') s = b # rest"
    using assms by (auto simp: match_braces_def split: list.splits)
  have b: "b = CHR ''{''"
    using hd_dropWhile [of "\<lambda>c. c \<noteq> CHR ''{''" s] d by simp
  let ?post = "rev (takeWhile (\<lambda>c. c \<noteq> CHR ''}'') (rev rest))"
  let ?body = "rev (dropWhile (\<lambda>c. c \<noteq> CHR ''}'') (rev rest))"
  have m: "m = b # ?body" and ne: "?body \<noteq> []"
    using assms d by (auto simp: match_braces_def Let_def split: if_splits)
  obtain c cs where dr: "dropWhile (\<lambda>c. c \<noteq> CHR ''}'') (rev rest) = c # cs"
    using ne by (cases "dropWhile (\<lambda>c. c \<noteq> CHR ''}'') (rev rest)") auto
  have c: "c = CHR ''}''"
    using hd_dropWhile [of "\<lambda>c. c \<noteq> CHR ''}''" "rev rest"] dr by simp
  have "rev rest = takeWhile (\<lambda>c. c \<noteq> CHR ''}'') (rev rest)
                   @ dropWhile (\<lambda>c. c \<noteq> CHR ''}'') (rev rest)"
    by simp
  then have "rev (rev rest) = ?body @ ?post"
    by (metis rev_append)
  then have rest: "rest = ?body @ ?post"
    by simp
  have s: "s = ?pre @ b # rest"
    using d takeWhile_dropWhile_id [of "\<lambda>c. c \<noteq> CHR ''{''" s] by simp
  have "s = ?pre @ m @ ?post"
    using s rest m by simp
  moreover have "m = CHR ''{'' # rev cs @ [CHR ''}'']"
    using m b dr c by simp
  moreover have "CHR ''{'' \<notin> set ?pre"
    using set_takeWhileD by fastforce
  moreover have "CHR ''}'' \<notin> set ?post"
    using set_takeWhileD by fastforce
  ultimately show ?thesis
    by blast
qed

lemma dropWhile_keeps_suffix:
  assumes "\<not> P x"
  shows "\<exists>ys. dropWhile P (pre @ x # post) = ys @ x # post"
proof (cases "\<forall>y\<in>set pre. P y")
  case True
  then have "dropWhile P (pre @ x # post) = dropWhile P (x # post)"
    by (simp add: dropWhile_append2)
  with assms show ?thesis
    by simp
next
  case False
  then have "dropWhile P (pre @ x # post) = dropWhile P pre @ x # post"
    by (auto simp: dropWhile_append1)
  then show ?thesis by blast
qed

text \<open>
  There is no match exactly when no opening brace has a closing brace after it.
\<close>

lemma match_braces_None_iff:
  "match_braces s = None \<longleftrightarrow> (\<forall>pre post. s = pre @ CHR ''{'' # post \<longrightarrow> CHR ''}'' \<notin> set post)"
proof
  assume n: "match_braces s = None"
  show "\<forall>pre post. s = pre @ CHR ''{'' # post \<longrightarrow> CHR ''}'' \<notin> set post"
  proof (intro allI impI notI)
    fix pre post
    assume s: "s = pre @ CHR ''{'' # post" and c: "CHR ''}'' \<in> set post"
    obtain ys where ys: "dropWhile (\<lambda>c. c \<noteq> CHR ''{'') s = ys @ CHR ''{'' # post"
      using dropWhile_keeps_suffix [of "\<lambda>c. c \<noteq> CHR ''{''" "CHR ''{''" pre post] s by auto
    then obtain b rest where d: "dropWhile (\<lambda>c. c \<noteq> CHR ''{'') s = b # rest"
      by (cases ys) auto
    have "CHR ''}'' \<in> set (b # rest)"
      using ys d c by simp
    moreover have "b = CHR ''{''"
      using hd_dropWhile [of "\<lambda>c. c \<noteq> CHR ''{''" s] d by simp
    ultimately have "CHR ''}'' \<in> set (rev rest)"
      by simp
    then have "dropWhile (\<lambda>c. c \<noteq> CHR ''}'') (rev rest) \<noteq> []"
      by (simp add: dropWhile_eq_Nil_conv)
    then have "match_braces s \<noteq> None"
      using d by (simp add: match_braces_def Let_def)
    with n show False
      by simp
  qed
next
  assume a: "\<forall>pre post. s = pre @ CHR ''{'' # post \<longrightarrow> CHR ''}'' \<notin> set post"
  show "match_braces s = None"
  proof (cases "match_braces s")
    case None
    then show ?thesis .
  next
    case (Some m)
    then obtain pre body post where "s = pre @ m @ post" "m = CHR ''{'' # body @ [CHR ''}'']"
      using match_braces_shape by blast
    then have "s = pre @ CHR ''{'' # (body @ CHR ''}'' # post)"
      by simp
    with a have "CHR ''}'' \<notin> set (body @ CHR ''}'' # post)"
      by blast
    then show ?thesis by simp
  qed
qed
text \<open>
  The match is the span from the first opening brace to the last closing brace: what
  stands before it has no opening brace, what stands after it no closing brace, and
  the span itself may hold any braces.
\<close>

lemma match_braces_span:
  assumes "CHR ''{'' \<notin> set pre" and "CHR ''}'' \<notin> set post"
  shows "match_braces (pre @ CHR ''{'' # body @ CHR ''}'' # post)
         = Some (CHR ''{'' # body @ [CHR ''}''])"
proof -
  let ?rest = "body @ CHR ''}'' # post"
  have "dropWhile (\<lambda>c. c \<noteq> CHR ''{'') pre = []"
    using assms(1) by (auto simp: dropWhile_eq_Nil_conv)
  then have d: "dropWhile (\<lambda>c. c \<noteq> CHR ''{'') (pre @ CHR ''{'' # ?rest) = CHR ''{'' # ?rest"
    by (simp add: dropWhile_append3)
  have "dropWhile (\<lambda>c. c \<noteq> CHR ''}'') (rev post) = []"
    using assms(2) by (auto simp: dropWhile_eq_Nil_conv)
  then have "dropWhile (\<lambda>c. c \<noteq> CHR ''}'') (rev post @ CHR ''}'' # rev body)
             = CHR ''}'' # rev body"
    by (simp add: dropWhile_append3)
  then have r: "rev (dropWhile (\<lambda>c. c \<noteq> CHR ''}'') (rev ?rest)) = body @ [CHR ''}'']"
    by simp
  show ?thesis
    unfolding match_braces_def d using r by (simp add: Let_def)
qed

lemma match_braces_no_span:
  assumes "\<not> (\<exists>pre mid post. s = pre @ CHR ''{'' # mid @ CHR ''}'' # post)"
  shows "match_braces s = None"
proof -
  have "CHR ''}'' \<notin> set post" if "s = pre @ CHR ''{'' # post" for pre post
  proof
    assume "CHR ''}'' \<in> set post"
    then obtain mid post' where "post = mid @ CHR ''}'' # post'"
      by (auto dest: split_list)
    with that assms show False
      by blast
  qed
  then show ?thesis
    by (simp add: match_braces_None_iff)
qed

lemma match_braces_no_span_iff:
  "match_braces s = None \<longleftrightarrow> \<not> (\<exists>pre mid post. s = pre @ CHR ''{'' # mid @ CHR ''}'' # post)"
proof
  assume n: "match_braces s = None"
  show "\<not> (\<exists>pre mid post. s = pre @ CHR ''{'' # mid @ CHR ''}'' # post)"
  proof
    assume "\<exists>pre mid post. s = pre @ CHR ''{'' # mid @ CHR ''}'' # post"
    then obtain pre mid post where "s = pre @ CHR ''{'' # (mid @ CHR ''}'' # post)"
      by auto
    with n have "CHR ''}'' \<notin> set (mid @ CHR ''}'' # post)"
      unfolding match_braces_None_iff by blast
    then show False
      by simp
  qed
next
  assume "\<not> (\<exists>pre mid post. s = pre @ CHR ''{'' # mid @ CHR ''}'' # post)"
  then show "match_braces s = None"
    by (rule match_braces_no_span)
qed

lemma parseVoiceCommand_cases:
  "parseVoiceCommand JSON_parse api transcript =
     Inr (case generateAIRecommendation api (voice_prompt transcript) of
            Inl e \<Rightarrow> JObj [(''action'', JStr ''unknown'')]
          | Inr response \<Rightarrow>
              (case js_match response of
                 Inl e \<Rightarrow> JObj [(''action'', JStr ''unknown'')]
               | Inr None \<Rightarrow> JObj [(''action'', JStr ''unknown'')]
               | Inr (Some m) \<Rightarrow>
                   (case JSON_parse m of
                      Inl e \<Rightarrow> JObj [(''action'', JStr ''unknown'')]
                    | Inr v \<Rightarrow> v)))"
  by (simp add: parseVoiceCommand_def parseVoiceCommand_try_def Let_def
      split: sum.splits option.splits)

lemma parseVoiceCommand_parsed:
  assumes "generateAIRecommendation api (voice_prompt transcript) = Inr (JStr response)"
      and "match_braces response = Some m"
      and "JSON_parse m = Inr v"
  shows "parseVoiceCommand JSON_parse api transcript = Inr v"
  using assms by (simp add: parseVoiceCommand_cases)

lemma reply_text:
  assumes "s \<noteq> []"
  shows "generateAIRecommendation (reply (JStr s)) prompt = Inr (JStr s)"
  using assms
  by (simp add: generateAIRecommendation_cases reply_def candidate_text_def opt_member_def
      nullish_def)

lemma match_delete_response: "match_braces delete_response = Some delete_text"
  by (simp add: match_braces_def delete_response_def delete_text_def Let_def)

text \<open>
  C7, as amended. For every prompt and every behaviour of the endpoint the call returns
  a value and never an exception. It returns the fixed text
  \<open>Unable to generate recommendation at this time\<close> when the request or the decoding
  of the body throws or the body is \<open>null\<close>, the fixed text
  \<open>No recommendation available\<close> when \<open>candidates[0].content.parts[0].text\<close> is
  missing or falsy, and otherwise the value found there as it is, which is a string
  whenever the response carries a string there.
\<close>

theorem generateAIRecommendation_never_throws:
  "(\<exists>v. generateAIRecommendation api prompt = Inr v)
   \<and> (api prompt = Inl e
        \<longrightarrow> generateAIRecommendation api prompt
            = Inr (JStr ''Unable to generate recommendation at this time''))
   \<and> (api prompt = Inr data \<and> nullish data
        \<longrightarrow> generateAIRecommendation api prompt
            = Inr (JStr ''Unable to generate recommendation at this time''))
   \<and> (api prompt = Inr data \<and> \<not> nullish data
        \<and> \<not> truthy (candidate_text (get_prop data ''candidates''))
        \<longrightarrow> generateAIRecommendation api prompt = Inr (JStr ''No recommendation available''))
   \<and> (api prompt = Inr data \<and> \<not> nullish data
        \<and> truthy (candidate_text (get_prop data ''candidates''))
        \<longrightarrow> generateAIRecommendation api prompt
            = Inr (candidate_text (get_prop data ''candidates'')))
   \<and> (api prompt = Inr data \<and> \<not> nullish data
        \<and> candidate_text (get_prop data ''candidates'') = JStr s
        \<longrightarrow> returns_string (generateAIRecommendation api prompt))"
  by (simp add: generateAIRecommendation_cases)

theorem generateAIRecommendation_never_throws_witness:
  "offline ''Plan my day'' = Inl NetworkError
   \<and> generateAIRecommendation offline ''Plan my day''
     = Inr (JStr ''Unable to generate recommendation at this time'')
   \<and> null_body ''Plan my day'' = Inr JNull \<and> nullish JNull
   \<and> generateAIRecommendation null_body ''Plan my day''
     = Inr (JStr ''Unable to generate recommendation at this time'')
   \<and> reply (JStr []) ''Plan my day'' = Inr (JObj [(''candidates'',
         JArr [JObj [(''content'', JObj [(''parts'', JArr [JObj [(''text'', JStr [])]])])]])])
   \<and> generateAIRecommendation (reply (JStr [])) ''Plan my day''
     = Inr (JStr ''No recommendation available'')
   \<and> generateAIRecommendation (reply (JStr ''Start with the report'')) ''Plan my day''
     = Inr (JStr ''Start with the report'')
   \<and> returns_string
       (generateAIRecommendation (reply (JStr ''Start with the report'')) ''Plan my day'')"
proof -
  let ?p = "''Plan my day''"
  let ?d = "\<lambda>t. JObj [(''candidates'',
         JArr [JObj [(''content'', JObj [(''parts'', JArr [JObj [(''text'', t)]])])]])]"
  have a1: "offline ?p = Inl NetworkError"
    by (simp add: offline_def)
  have a2: "null_body ?p = Inr JNull" "nullish JNull"
    by (simp_all add: null_body_def nullish_def)
  have a3: "reply t ?p = Inr (?d t)" "\<not> nullish (?d t)"
      "candidate_text (get_prop (?d t) ''candidates'') = t" for t
    by (simp_all add: reply_def nullish_def candidate_text_def opt_member_def)
  have c1: "generateAIRecommendation offline ?p
            = Inr (JStr ''Unable to generate recommendation at this time'')"
    using generateAIRecommendation_never_throws [of offline ?p NetworkError] a1 by simp
  have c2: "generateAIRecommendation null_body ?p
            = Inr (JStr ''Unable to generate recommendation at this time'')"
    using generateAIRecommendation_never_throws [of null_body ?p _ JNull] a2 by simp
  have c3: "generateAIRecommendation (reply (JStr [])) ?p
            = Inr (JStr ''No recommendation available'')"
    using generateAIRecommendation_never_throws [of "reply (JStr [])" ?p _ "?d (JStr [])"]
      a3 [of "JStr []"] by simp
  have c4: "generateAIRecommendation (reply (JStr ''Start with the report'')) ?p
            = Inr (JStr ''Start with the report'')"
       and c5: "returns_string
                  (generateAIRecommendation (reply (JStr ''Start with the report'')) ?p)"
    using generateAIRecommendation_never_throws
      [of "reply (JStr ''Start with the report'')" ?p _ "?d (JStr ''Start with the report'')"
          "''Start with the report''"]
      a3 [of "JStr ''Start with the report''"] by simp_all
  from a1 a2 a3 [of "JStr []"] c1 c2 c3 c4 c5 show ?thesis
    by simp
qed

text \<open>
  C7 as stated fails: a response whose text is the number 42 makes the call return 42,
  which is neither a string nor one of the fallback texts.
\<close>

theorem generateAIRecommendation_string_counterexample:
  "generateAIRecommendation (reply (JNum 42)) ''Plan my day'' = Inr (JNum 42)
   \<and> \<not> returns_string (generateAIRecommendation (reply (JNum 42)) ''Plan my day'')"
  by (simp add: generateAIRecommendation_cases reply_def candidate_text_def opt_member_def
      nullish_def)

text \<open>
  C6, as amended. For every response, \<open>parseVoiceCommand\<close> returns a value and never
  an exception. Of a response text it takes the span from the first opening brace to
  the last closing brace, whatever stands between them, and returns what \<open>JSON.parse\<close>
  makes of this span, as it is. When \<open>JSON.parse\<close> throws on the span (also when a
  shorter part of it in braces is JSON), when no opening brace has a closing brace
  after it, and when the response is not a text, the result is the object with the one
  field \<open>action: 'unknown'\<close>.
\<close>

theorem parseVoiceCommand_greedy_span:
  "(\<exists>v. parseVoiceCommand JSON_parse api transcript = Inr v)
   \<and> (generateAIRecommendation api (voice_prompt transcript)
          = Inr (JStr (pre @ CHR ''{'' # body @ CHR ''}'' # post))
        \<and> CHR ''{'' \<notin> set pre \<and> CHR ''}'' \<notin> set post
        \<and> JSON_parse (CHR ''{'' # body @ [CHR ''}'']) = Inr v
        \<longrightarrow> parseVoiceCommand JSON_parse api transcript = Inr v)
   \<and> (generateAIRecommendation api (voice_prompt transcript)
          = Inr (JStr (pre @ CHR ''{'' # body @ CHR ''}'' # post))
        \<and> CHR ''{'' \<notin> set pre \<and> CHR ''}'' \<notin> set post
        \<and> JSON_parse (CHR ''{'' # body @ [CHR ''}'']) = Inl e
        \<longrightarrow> parseVoiceCommand JSON_parse api transcript
            = Inr (JObj [(''action'', JStr ''unknown'')]))
   \<and> (generateAIRecommendation api (voice_prompt transcript) = Inr (JStr response)
        \<and> \<not> (\<exists>p m q. response = p @ CHR ''{'' # m @ CHR ''}'' # q)
        \<longrightarrow> parseVoiceCommand JSON_parse api transcript
            = Inr (JObj [(''action'', JStr ''unknown'')]))
   \<and> (generateAIRecommendation api (voice_prompt transcript) = Inr r
        \<and> \<not> returns_string (Inr r)
        \<longrightarrow> parseVoiceCommand JSON_parse api transcript
            = Inr (JObj [(''action'', JStr ''unknown'')]))"
proof (intro conjI impI)
  show "\<exists>v. parseVoiceCommand JSON_parse api transcript = Inr v"
    by (simp add: parseVoiceCommand_cases)
next
  assume a: "generateAIRecommendation api (voice_prompt transcript)
          = Inr (JStr (pre @ CHR ''{'' # body @ CHR ''}'' # post))
        \<and> CHR ''{'' \<notin> set pre \<and> CHR ''}'' \<notin> set post
        \<and> JSON_parse (CHR ''{'' # body @ [CHR ''}'']) = Inr v"
  then have "match_braces (pre @ CHR ''{'' # body @ CHR ''}'' # post)
             = Some (CHR ''{'' # body @ [CHR ''}''])"
    by (simp add: match_braces_span)
  with a show "parseVoiceCommand JSON_parse api transcript = Inr v"
    by (simp add: parseVoiceCommand_cases)
next
  assume a: "generateAIRecommendation api (voice_prompt transcript)
          = Inr (JStr (pre @ CHR ''{'' # body @ CHR ''}'' # post))
        \<and> CHR ''{'' \<notin> set pre \<and> CHR ''}'' \<notin> set post
        \<and> JSON_parse (CHR ''{'' # body @ [CHR ''}'']) = Inl e"
  then have "match_braces (pre @ CHR ''{'' # body @ CHR ''}'' # post)
             = Some (CHR ''{'' # body @ [CHR ''}''])"
    by (simp add: match_braces_span)
  with a show "parseVoiceCommand JSON_parse api transcript
            = Inr (JObj [(''action'', JStr ''unknown'')])"
    by (simp add: parseVoiceCommand_cases)
next
  assume a: "generateAIRecommendation api (voice_prompt transcript) = Inr (JStr response)
        \<and> \<not> (\<exists>p m q. response = p @ CHR ''{'' # m @ CHR ''}'' # q)"
  then have "match_braces response = None"
    by (simp add: match_braces_no_span)
  with a show "parseVoiceCommand JSON_parse api transcript
            = Inr (JObj [(''action'', JStr ''unknown'')])"
    by (simp add: parseVoiceCommand_cases)
next
  assume a: "generateAIRecommendation api (voice_prompt transcript) = Inr r
        \<and> \<not> returns_string (Inr r)"
  then have "js_match r = Inl TypeError"
    by (cases r) simp_all
  with a show "parseVoiceCommand JSON_parse api transcript
            = Inr (JObj [(''action'', JStr ''unknown'')])"
    by (simp add: parseVoiceCommand_cases)
qed

theorem parseVoiceCommand_greedy_span_witness:
  "nested_response = ''Sure: '' @ CHR ''{'' # ''\"action\":\"create\",\"tags\":{\"a\":1}'' @ CHR ''}'' # '' Done.''
   \<and> parse_create (CHR ''{'' # ''\"action\":\"create\",\"tags\":{\"a\":1}'' @ [CHR ''}''])
     = Inr nested_intent
   \<and> parseVoiceCommand parse_create (reply (JStr nested_response)) ''add a task''
     = Inr nested_intent
   \<and> two_response = [] @ CHR ''{'' # ''\"action\":\"create\"} and {\"action\":\"update\"'' @ CHR ''}'' # []
   \<and> parse_create (CHR ''{'' # ''\"action\":\"create\"} and {\"action\":\"update\"'' @ [CHR ''}''])
     = Inl SyntaxError
   \<and> parseVoiceCommand parse_create (reply (JStr two_response)) ''add a task''
     = Inr (JObj [(''action'', JStr ''unknown'')])
   \<and> match_braces ''} nothing to do {'' = None
   \<and> parseVoiceCommand parse_create (reply (JStr ''} nothing to do {'')) ''hello''
     = Inr (JObj [(''action'', JStr ''unknown'')])
   \<and> generateAIRecommendation (reply (JNum 42)) (voice_prompt ''hello'') = Inr (JNum 42)
   \<and> \<not> returns_string (Inr (JNum 42))
   \<and> parseVoiceCommand parse_create (reply (JNum 42)) ''hello''
     = Inr (JObj [(''action'', JStr ''unknown'')])"
proof -
  let ?nb = "''\"action\":\"create\",\"tags\":{\"a\":1}''"
  let ?tb = "''\"action\":\"create\"} and {\"action\":\"update\"''"
  have n1: "nested_response = ''Sure: '' @ CHR ''{'' # ?nb @ CHR ''}'' # '' Done.''"
    by (simp add: nested_response_def nested_text_def)
  have n2: "CHR ''{'' \<notin> set ''Sure: ''" "CHR ''}'' \<notin> set '' Done.''"
    by simp_all
  have n3: "parse_create (CHR ''{'' # ?nb @ [CHR ''}'']) = Inr nested_intent"
    by (simp add: parse_create_def create_text_def nested_text_def)
  have n4: "generateAIRecommendation (reply (JStr nested_response)) (voice_prompt ''add a task'')
            = Inr (JStr (''Sure: '' @ CHR ''{'' # ?nb @ CHR ''}'' # '' Done.''))"
    unfolding n1 [symmetric] by (rule reply_text) (simp add: nested_response_def)
  have c1: "parseVoiceCommand parse_create (reply (JStr nested_response)) ''add a task''
            = Inr nested_intent"
    using parseVoiceCommand_greedy_span
      [of parse_create "reply (JStr nested_response)" "''add a task''"
          "''Sure: ''" ?nb "'' Done.''" nested_intent]
      n2 n3 n4 by simp
  have t1: "two_response = [] @ CHR ''{'' # ?tb @ CHR ''}'' # []"
    by (simp add: two_response_def create_text_def update_text_def)
  have t3: "parse_create (CHR ''{'' # ?tb @ [CHR ''}'']) = Inl SyntaxError"
    by (simp add: parse_create_def create_text_def nested_text_def)
  have t4: "generateAIRecommendation (reply (JStr two_response)) (voice_prompt ''add a task'')
            = Inr (JStr ([] @ CHR ''{'' # ?tb @ CHR ''}'' # []))"
    unfolding t1 [symmetric] by (rule reply_text) (simp add: two_response_def create_text_def)
  have c2: "parseVoiceCommand parse_create (reply (JStr two_response)) ''add a task''
            = Inr (JObj [(''action'', JStr ''unknown'')])"
    using parseVoiceCommand_greedy_span
      [of parse_create "reply (JStr two_response)" "''add a task''"
          "[]" ?tb "[]" _ SyntaxError]
      t3 t4 by simp
  have m3: "match_braces ''} nothing to do {'' = None"
    by (simp add: match_braces_def Let_def)
  then have h3: "\<not> (\<exists>p m q. ''} nothing to do {'' = p @ CHR ''{'' # m @ CHR ''}'' # q)"
    by (rule iffD1 [OF match_braces_no_span_iff])
  have g3: "generateAIRecommendation (reply (JStr ''} nothing to do {'')) (voice_prompt ''hello'')
            = Inr (JStr ''} nothing to do {'')"
    by (rule reply_text) simp
  have c3: "parseVoiceCommand parse_create (reply (JStr ''} nothing to do {'')) ''hello''
            = Inr (JObj [(''action'', JStr ''unknown'')])"
    by (rule mp [OF conjunct1 [OF conjunct2 [OF conjunct2 [OF conjunct2
          [OF parseVoiceCommand_greedy_span]]]]])
       (rule conjI [OF g3 h3])
  have g4: "generateAIRecommendation (reply (JNum 42)) (voice_prompt ''hello'') = Inr (JNum 42)"
    by (simp add: generateAIRecommendation_cases reply_def candidate_text_def opt_member_def
        nullish_def)
  have c4: "parseVoiceCommand parse_create (reply (JNum 42)) ''hello''
            = Inr (JObj [(''action'', JStr ''unknown'')])"
    using parseVoiceCommand_greedy_span
      [of parse_create "reply (JNum 42)" "''hello''" _ _ _ _ _ _ "JNum 42"]
      g4 by simp
  from n1 n3 c1 t1 t3 c2 m3 c3 g4 c4 show ?thesis
    by simp
qed

text \<open>
  C6 as stated fails: the response \<open>{"action":"create"} and {"action":"update"}\<close>
  begins with a JSON-shaped substring that \<open>JSON.parse\<close> reads as a command to create,
  yet the span taken runs to the last closing brace, is not JSON, and the result is
  \<open>action: 'unknown'\<close>.
\<close>

theorem parseVoiceCommand_first_object_counterexample:
  "two_response = create_text @ '' and '' @ update_text
   \<and> parse_create create_text = Inr create_intent
   \<and> get_prop create_intent ''action'' = JStr ''create''
   \<and> match_braces two_response = Some two_response
   \<and> parse_create two_response = Inl SyntaxError
   \<and> parseVoiceCommand parse_create (reply (JStr two_response)) ''add a task''
     = Inr (JObj [(''action'', JStr ''unknown'')])"
proof -
  have g: "generateAIRecommendation (reply (JStr two_response)) (voice_prompt ''add a task'')
           = Inr (JStr two_response)"
    by (rule reply_text) (simp add: two_response_def create_text_def)
  have m: "match_braces two_response = Some two_response"
    by (simp add: match_braces_def two_response_def create_text_def update_text_def Let_def)
  have p: "parse_create two_response = Inl SyntaxError"
    by (simp add: parse_create_def two_response_def create_text_def update_text_def
        nested_text_def)
  have "parseVoiceCommand parse_create (reply (JStr two_response)) ''add a task''
        = Inr (JObj [(''action'', JStr ''unknown'')])"
    using g m p by (simp add: parseVoiceCommand_cases)
  with m p show ?thesis
    by (simp add: two_response_def parse_create_def create_intent_def)
qed

text \<open>
  C10. \<open>parseVoiceCommand\<close> does not validate what \<open>JSON.parse\<close> produces. With a
  \<open>JSON.parse\<close> that reads the text \<open>{"action":"delete","priority":9}\<close> as the object
  with these two fields, there is a response containing a JSON-shaped substring for
  which the value returned is that object as it is: its action is none of \<open>create\<close>,
  \<open>complete\<close>, \<open>update\<close> and \<open>unknown\<close>, and its priority is outside 1 to 4.
\<close>

theorem parseVoiceCommand_not_validated:
  assumes "JSON_parse delete_text = Inr delete_intent"
  shows "\<exists>response m v n.
           match_braces response = Some m
           \<and> JSON_parse m = Inr v
           \<and> parseVoiceCommand JSON_parse (reply (JStr response)) transcript = Inr v
           \<and> get_prop v ''action''
               \<notin> {JStr ''create'', JStr ''complete'', JStr ''update'', JStr ''unknown''}
           \<and> get_prop v ''priority'' = JNum n \<and> \<not> (1 \<le> n \<and> n \<le> 4)"
proof -
  have "generateAIRecommendation (reply (JStr delete_response)) (voice_prompt transcript)
        = Inr (JStr delete_response)"
    by (rule reply_text) (simp add: delete_response_def)
  then have "parseVoiceCommand JSON_parse (reply (JStr delete_response)) transcript
             = Inr delete_intent"
    using match_delete_response assms by (rule parseVoiceCommand_parsed)
  moreover have "get_prop delete_intent ''action''
                   \<notin> {JStr ''create'', JStr ''complete'', JStr ''update'', JStr ''unknown''}"
    by (simp add: delete_intent_def)
  moreover have "get_prop delete_intent ''priority'' = JNum 9 \<and> \<not> (1 \<le> (9::rat) \<and> (9::rat) \<le> 4)"
    by (simp add: delete_intent_def)
  ultimately show ?thesis
    using match_delete_response assms by blast
qed

theorem parseVoiceCommand_not_validated_witness:
  "parse_delete delete_text = Inr delete_intent
   \<and> (\<exists>response m v n.
           match_braces response = Some m
           \<and> parse_delete m = Inr v
           \<and> parseVoiceCommand parse_delete (reply (JStr response)) ''delete the report'' = Inr v
           \<and> get_prop v ''action''
               \<notin> {JStr ''create'', JStr ''complete'', JStr ''update'', JStr ''unknown''}
           \<and> get_prop v ''priority'' = JNum n \<and> \<not> (1 \<le> n \<and> n \<le> 4))"
proof -
  have h: "parse_delete delete_text = Inr delete_intent"
    by (simp add: parse_delete_def)
  show ?thesis
    using h parseVoiceCommand_not_validated [of parse_delete "''delete the report''"] by simp
qed

end
